theory Spec2Isabelle
  imports Main "HOL-Library.Word" "HOL-Library.Multiset"
begin

section \<open>Machine integers\<close>

text \<open>
  The source computes on \<open>int32_t\<close>. A value is a 32-bit word read as two's complement:
  comparisons are the signed ones (\<open><s\<close>, \<open>\<le>s\<close>), and \<open>+\<close>, \<open>-\<close>, \<open>*\<close> and unary minus
  wrap around. The source checks no overflow; where a result leaves the range of the
  type (which C++ leaves undefined), the model takes the wrap-around of two's
  complement hardware.
\<close>

type_synonym int32 = "32 word"

text \<open>\<open>std::numeric_limits<int32_t>::min()\<close>.\<close>

definition int32_min :: int32 where
  "int32_min = - 2147483648"

text \<open>\<open>std::abs\<close> on \<open>int32_t\<close>.\<close>

definition abs32 :: "int32 \<Rightarrow> int32" where
  "abs32 x = (if x <s 0 then - x else x)"

text \<open>\<open>std::max(a, b)\<close> on \<open>int32_t\<close>: \<open>(a < b) ? b : a\<close>.\<close>

definition max32 :: "int32 \<Rightarrow> int32 \<Rightarrow> int32" where
  "max32 a b = (if a <s b then b else a)"

text \<open>\<open>static_cast<int32_t>(b)\<close> for a \<open>bool\<close>.\<close>

definition int32_of_bool :: "bool \<Rightarrow> int32" where
  "int32_of_bool b = (if b then 1 else 0)"

section \<open>Statuses\<close>

text \<open>
  Modelled from the spec: the enumeration \<open>StatusCode\<close> is declared in
  \<open>arrow/status.h\<close>, which is not among the sources. Every fallible function of the
  source returns an \<open>arrow::Status\<close>, a code and a message, and the source constructs
  \<open>Status::OK()\<close> and \<open>Status::Invalid(msg)\<close>. Beside these two codes the type holds
  \<open>PythonError\<close>, which stands for the code of the status that \<open>RETURN_IF_PYERROR\<close>
  returns after a Python exception, and the two kinds the specification names for
  failures, \<open>OutOfRange\<close> and \<open>ValueError\<close>.
\<close>

datatype StatusCode = OK | Invalid | PythonError | OutOfRange | ValueError

datatype Status = Status StatusCode string

definition Status_OK :: Status where
  "Status_OK = Status OK []"

definition Status_Invalid :: "string \<Rightarrow> Status" where
  "Status_Invalid msg = Status Invalid msg"

text \<open>
  A function with output parameters returns \<open>Inl\<close> of the failing status, or \<open>Inr\<close> of
  the outputs when the status is OK. \<open>status_code\<close> reads the code of such a result.
\<close>

fun status_code :: "Status + 'a \<Rightarrow> StatusCode" where
  "status_code (Inl (Status c msg)) = c"
| "status_code (Inr v) = OK"

section \<open>The Python object\<close>

text \<open>
  The source sees a \<open>PyObject*\<close> only through calls into the Python runtime. The record
  holds what those calls answer for one object:
  \<^item> \<open>py_is_decimal\<close>: the result of \<open>PyDecimal_Check\<close>;
  \<^item> \<open>py_is_nan\<close>: the result of \<open>PyDecimal_ISNAN\<close>, that is whether \<open>obj.is_nan()\<close> is true;
  \<^item> \<open>py_str\<close>: the result of \<open>PyObject_StdStringStr\<close>, the text of \<open>str(obj)\<close> or the
    status of the Python error;
  \<^item> \<open>py_as_tuple\<close>: the digits and the exponent of \<open>obj.as_tuple()\<close>, the exponent as
    the C \<open>long\<close> that \<open>PyLong_AsLong\<close> returns, or the status that
    \<open>RETURN_IF_PYERROR\<close> hands back when one of the calls raised.
\<close>

record PyObject =
  py_is_decimal :: bool
  py_is_nan :: bool
  py_str :: "Status + string"
  py_as_tuple :: "Status + (nat list \<times> int)"

definition PythonDecimalToString :: "PyObject \<Rightarrow> Status + string" where
  "PythonDecimalToString python_decimal = py_str python_decimal"

definition PyDecimal_Check :: "PyObject \<Rightarrow> bool" where
  "PyDecimal_Check obj = py_is_decimal obj"

definition PyDecimal_ISNAN :: "PyObject \<Rightarrow> bool" where
  "PyDecimal_ISNAN obj = py_is_nan obj"

section \<open>Inference of precision and scale\<close>

text \<open>
  The arithmetic of \<open>InferDecimalPrecisionAndScale\<close>, from \<open>abs_exponent\<close> to the two
  outputs \<open>(*precision, *scale)\<close>. The \<open>DCHECK_NE(exponent, 0)\<close> of the first branch is
  a debug-build assertion and computes nothing; lemma \<open>Infer_dcheck\<close> below shows that
  it holds for every object with at least one digit.
\<close>

definition InferDecimalPrecisionAndScale_arith :: "int32 \<Rightarrow> int32 \<Rightarrow> int32 \<times> int32" where
  "InferDecimalPrecisionAndScale_arith num_digits exponent =
     (let abs_exponent = abs32 exponent;
          (num_additional_zeros, scale) =
            (if num_digits \<le>s abs_exponent
             then ((if exponent <s 0 then abs_exponent - num_digits else exponent),
                   int32_of_bool (exponent <s 0) * - exponent)
             else (0, - exponent));
          precision = num_digits + num_additional_zeros
      in (precision, scale))"

text \<open>
  The whole function: \<open>num_digits\<close> is \<open>static_cast<int32_t>(PyTuple_Size(digits))\<close> and
  \<open>exponent\<close> is \<open>static_cast<int32_t>(PyLong_AsLong(py_exponent))\<close>; both casts keep the
  low 32 bits.
\<close>

definition InferDecimalPrecisionAndScale :: "PyObject \<Rightarrow> Status + (int32 \<times> int32)" where
  "InferDecimalPrecisionAndScale python_decimal =
     (case py_as_tuple python_decimal of
        Inl e \<Rightarrow> Inl e
      | Inr (digits, py_exponent) \<Rightarrow>
          (let num_digits = (word_of_nat (length digits) :: int32);
               exponent = (word_of_int py_exponent :: int32)
           in Inr (InferDecimalPrecisionAndScale_arith num_digits exponent)))"

section \<open>The metadata of a column\<close>

record DecimalMetadata =
  meta_precision :: int32
  meta_scale :: int32

text \<open>The default constructor: both fields hold the least \<open>int32_t\<close>.\<close>

definition DecimalMetadata_default :: DecimalMetadata where
  "DecimalMetadata_default = \<lparr>meta_precision = int32_min, meta_scale = int32_min\<rparr>"

text \<open>
  \<open>DecimalMetadata::Update(int32_t, int32_t)\<close>: the object is passed in and returned
  with the status, one record update for each assignment of the source.
\<close>

definition Update :: "DecimalMetadata \<Rightarrow> int32 \<Rightarrow> int32 \<Rightarrow> Status \<times> DecimalMetadata" where
  "Update this suggested_precision suggested_scale =
     (let current_precision = meta_precision this;
          this1 = this\<lparr>meta_precision := max32 current_precision suggested_precision\<rparr>;
          current_scale = meta_scale this1;
          this2 = this1\<lparr>meta_scale := max32 current_scale suggested_scale\<rparr>;
          this3 = (if suggested_scale = 0 \<and> current_precision <s suggested_precision
                   then this2\<lparr>meta_precision := meta_precision this2 + meta_scale this2\<rparr>
                   else this2)
      in (Status_OK, this3))"

text \<open>\<open>DecimalMetadata::Update(PyObject*)\<close>; \<open>DCHECK(is_decimal)\<close> computes nothing.\<close>

definition Update_object :: "DecimalMetadata \<Rightarrow> PyObject \<Rightarrow> Status \<times> DecimalMetadata" where
  "Update_object this object =
     (let is_decimal = PyDecimal_Check object
      in if \<not> is_decimal \<or> PyDecimal_ISNAN object then (Status_OK, this)
         else (case InferDecimalPrecisionAndScale object of
                 Inl e \<Rightarrow> (e, this)
               | Inr (precision, scale) \<Rightarrow> Update this precision scale))"

text \<open>
  A pass over a column calls \<open>Update\<close> once for each suggested pair, in the order of the
  list, on the same object.
\<close>

fun Updates :: "DecimalMetadata \<Rightarrow> (int32 \<times> int32) list \<Rightarrow> DecimalMetadata" where
  "Updates this [] = this"
| "Updates this ((p, s) # rest) = Updates (snd (Update this p s)) rest"

text \<open>
  The update rule in the words of the specification: two maxima of signed values, and
  the sum of both when the suggested scale is zero and the suggested precision exceeds
  the precision before the update; the results are stored in \<open>int32\<close> fields.
\<close>

definition Update_spec :: "DecimalMetadata \<Rightarrow> int32 \<Rightarrow> int32 \<Rightarrow> DecimalMetadata" where
  "Update_spec meta suggested_precision suggested_scale =
     (let new_precision = max (sint (meta_precision meta)) (sint suggested_precision);
          new_scale = max (sint (meta_scale meta)) (sint suggested_scale);
          new_precision' =
            (if suggested_scale = 0 \<and> sint (meta_precision meta) < sint suggested_precision
             then new_precision + new_scale else new_precision)
      in \<lparr>meta_precision = word_of_int new_precision', meta_scale = word_of_int new_scale\<rparr>)"

section \<open>Conversion to a 128-bit decimal\<close>

type_synonym Decimal128 = "128 word"

record DecimalType =
  type_precision :: int32
  type_scale :: int32

text \<open>What \<open>operator<<\<close> writes for an \<open>int32_t\<close>: the decimal digits, after a minus sign
  for a negative value.\<close>

fun show_nat :: "nat \<Rightarrow> string" where
  "show_nat n =
     (if n < 10 then [char_of (48 + n)]
      else show_nat (n div 10) @ [char_of (48 + n mod 10)])"

declare show_nat.simps [simp del]

definition show_int32 :: "int32 \<Rightarrow> string" where
  "show_int32 x =
     (if sint x < 0 then CHR ''-'' # show_nat (nat (- sint x)) else show_nat (nat (sint x)))"

text \<open>The message the source assembles in \<open>buf\<close>.\<close>

definition precision_message :: "int32 \<Rightarrow> int32 \<Rightarrow> string" where
  "precision_message inferred_precision precision =
     ''Decimal type with precision '' @ show_int32 inferred_precision @
     '' does not fit into precision inferred from first array element: '' @
     show_int32 precision"

text \<open>
  \<open>DecimalFromPythonDecimal\<close>. \<open>Decimal128::FromString\<close> and \<open>Decimal128::Rescale\<close> are
  declared in \<open>arrow/util/decimal.h\<close>, which is not among the sources: they are the
  parameters \<open>FromString\<close> (from the text to the value, the inferred precision and the
  inferred scale) and \<open>Rescale\<close> (from the value, the original scale and the new scale
  to the rescaled value). The result is \<open>Inr\<close> of the final content of \<open>*out\<close> when the
  status is OK.
\<close>

definition DecimalFromPythonDecimal ::
  "(string \<Rightarrow> Status + (Decimal128 \<times> int32 \<times> int32)) \<Rightarrow>
   (Decimal128 \<Rightarrow> int32 \<Rightarrow> int32 \<Rightarrow> Status + Decimal128) \<Rightarrow>
   PyObject \<Rightarrow> DecimalType \<Rightarrow> Status + Decimal128" where
  "DecimalFromPythonDecimal FromString Rescale python_decimal arrow_type =
     (case PythonDecimalToString python_decimal of
        Inl e \<Rightarrow> Inl e
      | Inr string \<Rightarrow>
          (case FromString string of
             Inl e \<Rightarrow> Inl e
           | Inr (out, inferred_precision, inferred_scale) \<Rightarrow>
               (let precision = type_precision arrow_type;
                    scale = type_scale arrow_type
                in if precision <s inferred_precision
                   then Inl (Status_Invalid (precision_message inferred_precision precision))
                   else if scale \<noteq> inferred_scale
                   then Rescale out inferred_scale scale
                   else Inr out)))"

text \<open>
  Modelled from the spec: \<open>Decimal128::Rescale\<close> (the rescale primitive of section 6 and
  of step 3 of the converter) is missing from the sources. The value is multiplied by
  \<open>10 ^ (to_scale - from_scale)\<close> when the new scale is larger and divided by
  \<open>10 ^ (from_scale - to_scale)\<close> when it is smaller; the specification leaves the
  rounding of that division to the underlying arithmetic, so it is the parameter
  \<open>round_div\<close>. A result outside of 128 bits fails with \<open>OutOfRange\<close>.
\<close>

definition Rescale_spec ::
  "(int \<Rightarrow> int \<Rightarrow> int) \<Rightarrow> Decimal128 \<Rightarrow> int32 \<Rightarrow> int32 \<Rightarrow> Status + Decimal128" where
  "Rescale_spec round_div v from_scale to_scale =
     (let delta = sint to_scale - sint from_scale;
          r = (if 0 \<le> delta then sint v * 10 ^ nat delta
               else round_div (sint v) (10 ^ nat (- delta)))
      in if - (2 ^ 127) \<le> r \<and> r < 2 ^ 127 then Inr (word_of_int r)
         else Inl (Status OutOfRange []))"

text \<open>
  Modelled from the spec: the rounding of \<open>Decimal128::Rescale\<close> is missing with it.
  Division that truncates towards zero is one of the roundings the specification
  names.
\<close>

definition truncating_divide :: "int \<Rightarrow> int \<Rightarrow> int" where
  "truncating_divide a b = sgn a * sgn b * (\<bar>a\<bar> div \<bar>b\<bar>)"

text \<open>
  Modelled from the spec: \<open>Decimal128::FromString\<close> (the literal parser of section 6) is
  missing from the sources, and the specification fixes it only on the literals of its
  section 8: \<open>12345\<close> has five significant digits, and \<open>1.5\<close> is the unscaled value 15
  with two significant digits, one of them after the point. This table of the two
  literals gives the parameter \<open>FromString\<close> a value at concrete inputs; any other
  text is malformed input for it.
\<close>

definition FromString_vectors :: "string \<Rightarrow> Status + (Decimal128 \<times> int32 \<times> int32)" where
  "FromString_vectors s =
     (if s = ''12345'' then Inr (12345, 5, 0)
      else if s = ''1.5'' then Inr (15, 2, 1)
      else Inl (Status ValueError []))"

section \<open>Concrete objects\<close>

text \<open>
  What the Python runtime answers for some values of \<open>decimal.Decimal\<close>: the text of
  \<open>str\<close>, and the digits and the exponent of \<open>as_tuple()\<close>. The exponent of a NaN is
  not an integer, so \<open>PyLong_AsLong\<close> raises for it.
\<close>

definition Decimal_1_23 :: PyObject where
  "Decimal_1_23 =
     \<lparr>py_is_decimal = True, py_is_nan = False, py_str = Inr ''1.23'',
      py_as_tuple = Inr ([1, 2, 3], - 2)\<rparr>"

definition Decimal_5E3 :: PyObject where
  "Decimal_5E3 =
     \<lparr>py_is_decimal = True, py_is_nan = False, py_str = Inr ''5E+3'',
      py_as_tuple = Inr ([5], 3)\<rparr>"

definition Decimal_9 :: PyObject where
  "Decimal_9 =
     \<lparr>py_is_decimal = True, py_is_nan = False, py_str = Inr ''9'',
      py_as_tuple = Inr ([9], 0)\<rparr>"

definition Decimal_1_23E3 :: PyObject where
  "Decimal_1_23E3 =
     \<lparr>py_is_decimal = True, py_is_nan = False, py_str = Inr ''1.23E+3'',
      py_as_tuple = Inr ([1, 2, 3], 1)\<rparr>"

definition Decimal_12345 :: PyObject where
  "Decimal_12345 =
     \<lparr>py_is_decimal = True, py_is_nan = False, py_str = Inr ''12345'',
      py_as_tuple = Inr ([1, 2, 3, 4, 5], 0)\<rparr>"

definition Decimal_1_5 :: PyObject where
  "Decimal_1_5 =
     \<lparr>py_is_decimal = True, py_is_nan = False, py_str = Inr ''1.5'',
      py_as_tuple = Inr ([1, 5], - 1)\<rparr>"

definition Decimal_NaN :: PyObject where
  "Decimal_NaN =
     \<lparr>py_is_decimal = True, py_is_nan = True, py_str = Inr ''NaN'',
      py_as_tuple = Inl (Status PythonError [])\<rparr>"

section \<open>Facts about the signed order\<close>

lemma sint_max32: "sint (max32 a b) = max (sint a) (sint b)"
  by (simp add: max32_def word_sless_alt max_def)

lemma sint32_range: "- 2147483648 \<le> sint (x::int32) \<and> sint x < 2147483648"
  using sint_ge [of x] sint_lt [of x] by simp

lemma sint_add32:
  "- 2147483648 \<le> sint a + sint b \<Longrightarrow> sint a + sint b < 2147483648 \<Longrightarrow>
   sint (a + b :: int32) = sint a + sint b"
  by (simp add: sint_word_ariths signed_take_bit_int_eq_self)

lemma sint_int32_min: "sint int32_min = - 2147483648"
  by (simp add: int32_min_def)

lemma sint_neg32: "x \<noteq> int32_min \<Longrightarrow> sint (- x :: int32) = - sint x"
proof -
  assume "x \<noteq> int32_min"
  then have "sint x \<noteq> - 2147483648"
    using sint_int32_min by (metis signed_word_eqI)
  then show ?thesis
    using sint32_range [of x]
    by (simp add: sint_word_ariths signed_take_bit_int_eq_self)
qed

lemma sint_abs32: "x \<noteq> int32_min \<Longrightarrow> sint (abs32 x) = \<bar>sint x\<bar>"
  by (auto simp add: abs32_def word_sless_alt sint_neg32)

lemma max32_left_commute: "max32 (max32 a x) y = max32 (max32 a y) x"
proof -
  have "sint (max32 (max32 a x) y) = sint (max32 (max32 a y) x)"
    by (simp add: sint_max32 max.commute max.left_commute max.assoc)
  then show ?thesis by (rule signed_word_eqI)
qed

lemma fold_max32_mset:
  "mset xs = mset ys \<Longrightarrow>
   fold (\<lambda>u a. max32 a (f u)) xs z = fold (\<lambda>u a. max32 a (f u)) ys z"
proof -
  assume eq: "mset xs = mset ys"
  have "fold (\<lambda>u a. max32 a (f u)) xs = fold (\<lambda>u a. max32 a (f u)) ys"
    by (rule fold_multiset_equiv [OF _ eq]) (simp add: fun_eq_iff max32_left_commute)
  then show ?thesis by simp
qed

section \<open>Inference: the branches\<close>

text \<open>
  The second branch of the source, taken when the digits outnumber \<open>abs_exponent\<close>:
  the precision is the number of digits and the scale is \<open>-exponent\<close>, whatever the
  sign of the exponent.
\<close>

lemma Infer_else_branch:
  "abs32 e <s n \<Longrightarrow> InferDecimalPrecisionAndScale_arith n e = (n, - e)"
  by (simp add: InferDecimalPrecisionAndScale_arith_def Let_def signed.not_le [symmetric])

text \<open>
  In the second branch a positive exponent gives a negative scale.
\<close>

lemma Infer_negative_scale:
  assumes "0 <s e" and "e <s n"
  shows "snd (InferDecimalPrecisionAndScale_arith n e) <s 0"
proof -
  have pos: "0 < sint e" using assms(1) by (simp add: word_sless_alt)
  then have "e \<noteq> int32_min" using sint_int32_min by auto
  then have ng: "sint (- e) = - sint e" by (rule sint_neg32)
  have "\<not> e <s 0" using pos by (simp add: word_sless_alt)
  then have "abs32 e = e" by (simp add: abs32_def)
  then have "abs32 e <s n" using assms(2) by simp
  then have "InferDecimalPrecisionAndScale_arith n e = (n, - e)"
    by (rule Infer_else_branch)
  then show ?thesis using ng pos by (simp add: word_sless_alt)
qed

text \<open>
  \<open>DCHECK_NE(exponent, 0)\<close>: with at least one digit, the first branch is entered only
  with an exponent other than zero.
\<close>

lemma Infer_dcheck: "0 <s n \<Longrightarrow> n \<le>s abs32 e \<Longrightarrow> e \<noteq> 0"
  by (auto simp add: abs32_def word_sless_alt word_sle_eq)

section \<open>Claims on the inference\<close>

text \<open>
  Claim C9: the inference returns the values of the fixed test vectors. The digits
  1, 2, 3 with exponent -2 give precision 3 and scale 2; the digit 5 with exponent 3
  gives precision 4 and scale 0; the digit 9 with exponent 0 gives precision 1 and
  scale 0.
\<close>

theorem Infer_test_vectors:
  "InferDecimalPrecisionAndScale Decimal_1_23 = Inr (3, 2) \<and>
   InferDecimalPrecisionAndScale Decimal_5E3 = Inr (4, 0) \<and>
   InferDecimalPrecisionAndScale Decimal_9 = Inr (1, 0)"
  by code_simp

text \<open>
  Claim C1 states that with more digits than the absolute value of the exponent the
  precision is the number of digits and the scale is \<open>-exponent\<close> for a negative
  exponent and 0 otherwise. The value \<open>Decimal('1.23E+3')\<close> has the three digits 1, 2,
  3 and the exponent 1: the source returns precision 3 and scale -1 for it, where the
  claim states scale 0. The first branch of the source does clear the scale of a
  positive exponent (\<open>static_cast<int32_t>(exponent < 0) * -exponent\<close>); the second
  branch does not.
\<close>

theorem Infer_positive_exponent_scale:
  "InferDecimalPrecisionAndScale Decimal_1_23E3 = Inr (3, - 1)"
  by code_simp

text \<open>
  Claim C2 states precision \<open>\<ge> 1\<close> and scale \<open>\<ge> 0\<close> for every digit count \<open>\<ge> 0\<close> and
  every exponent but the pair (0, 0). With one digit and the exponent \<open>2147483647\<close>
  the sum \<open>num_digits + num_additional_zeros\<close> leaves the range of \<open>int32_t\<close>: the
  precision is the least \<open>int32_t\<close>.
\<close>

theorem Infer_precision_wraps:
  "InferDecimalPrecisionAndScale_arith 1 2147483647 = (- 2147483648, 0) \<and>
   \<not> 1 \<le>s fst (InferDecimalPrecisionAndScale_arith 1 2147483647)"
  by code_simp

text \<open>
  Claim C2, amended: for every digit count \<open>\<ge> 0\<close> and every exponent other than the
  least \<open>int32_t\<close>, the pair (0, 0) apart, the precision is \<open>\<ge> 1\<close> and the scale is
  \<open>\<ge> 0\<close>, provided that a positive exponent is at least the digit count and that
  their sum is an \<open>int32_t\<close>. A positive exponent below the digit count is the case of
  claim C1; nothing is stated for it here.
\<close>

theorem Infer_contract:
  assumes "0 \<le>s n" and "\<not> (n = 0 \<and> e = 0)" and "e \<noteq> int32_min"
    and "0 <s e \<Longrightarrow> n \<le>s e \<and> sint n + sint e < 2147483648"
  shows "1 \<le>s fst (InferDecimalPrecisionAndScale_arith n e) \<and>
         0 \<le>s snd (InferDecimalPrecisionAndScale_arith n e)"
proof -
  have n0: "0 \<le> sint n" using assms(1) by (simp add: word_sle_eq)
  have ne: "sint n = 0 \<longrightarrow> sint e \<noteq> 0"
    using assms(2) by (auto simp add: signed_eq_0_iff)
  have ab: "sint (abs32 e) = \<bar>sint e\<bar>" using assms(3) by (rule sint_abs32)
  have ng: "sint (- e) = - sint e" using assms(3) by (rule sint_neg32)
  have pos: "0 < sint e \<Longrightarrow> sint n \<le> sint e \<and> sint n + sint e < 2147483648"
    using assms(4) by (simp add: word_sless_alt word_sle_eq)
  note r = sint32_range [of n] sint32_range [of e]
  show ?thesis
  proof (cases "n \<le>s abs32 e")
    case le: True
    then have le': "sint n \<le> \<bar>sint e\<bar>" by (simp add: word_sle_eq ab)
    show ?thesis
    proof (cases "e <s 0")
      case True
      then have e0: "sint e < 0" by (simp add: word_sless_alt)
      have "sint (n + (abs32 e - n)) = \<bar>sint e\<bar>" using ab by simp
      then show ?thesis
        using le True e0 ng
        by (simp add: InferDecimalPrecisionAndScale_arith_def Let_def int32_of_bool_def word_sle_eq)
    next
      case False
      then have e0: "0 \<le> sint e" by (simp add: word_sless_alt)
      from le' e0 n0 ne have "0 < sint e" by linarith
      with pos have "sint n + sint e < 2147483648" by simp
      then have "sint (n + e) = sint n + sint e"
        using r n0 e0 by (intro sint_add32) linarith+
      then show ?thesis
        using le False \<open>0 < sint e\<close> n0
        by (simp add: InferDecimalPrecisionAndScale_arith_def Let_def int32_of_bool_def word_sle_eq)
    qed
  next
    case False
    then have gt: "\<bar>sint e\<bar> < sint n" by (simp add: word_sle_eq ab)
    have "\<not> 0 < sint e" using pos gt by linarith
    then show ?thesis
      using False gt ng
      by (simp add: InferDecimalPrecisionAndScale_arith_def Let_def word_sle_eq)
  qed
qed

theorem Infer_contract_witness:
  "0 \<le>s (1::int32) \<and> \<not> ((1::int32) = 0 \<and> (3::int32) = 0) \<and> (3::int32) \<noteq> int32_min \<and>
   (1::int32) \<le>s 3 \<and> sint (1::int32) + sint (3::int32) < 2147483648 \<and>
   1 \<le>s fst (InferDecimalPrecisionAndScale_arith 1 3) \<and>
   0 \<le>s snd (InferDecimalPrecisionAndScale_arith 1 3)"
proof -
  have h1: "0 \<le>s (1::int32)" by (simp add: word_sle_eq)
  have h2: "\<not> ((1::int32) = 0 \<and> (3::int32) = 0)" by simp
  have h3: "(3::int32) \<noteq> int32_min" by (simp add: int32_min_def)
  have h4: "(1::int32) \<le>s 3 \<and> sint (1::int32) + sint (3::int32) < 2147483648"
    by (simp add: word_sle_eq)
  show ?thesis
    using Infer_contract [of 1 3, OF h1 h2 h3 h4] h1 h2 h3 h4 by simp
qed

section \<open>Claims on the update\<close>

text \<open>
  Claim C3: for every state and every suggested pair, \<open>Update\<close> returns OK and
  stores exactly the pair of the specification's rule: the new scale is the maximum of
  the stored and the suggested scale, and the new precision is the maximum of the
  stored and the suggested precision, increased by the new scale when the suggested
  scale is zero and the suggested precision is greater than the precision stored
  before the update.
\<close>

theorem Update_refines_spec: "Update m p s = (Status_OK, Update_spec m p s)"
  by (cases m)
     (auto simp add: Update_def Update_spec_def Let_def sint_max32 word_sless_alt
        max32_def max_def signed_eq_0_iff)

text \<open>
  One step of \<open>Update\<close>. The scale never decreases. When the correction does not leave
  the range of \<open>int32_t\<close>, the new precision is at least the stored and at least the
  suggested precision.
\<close>

lemma Update_scale_le: "meta_scale m \<le>s meta_scale (snd (Update m p s))"
  by (simp add: Update_def Let_def word_sle_eq sint_max32)

lemma Update_precision_le:
  assumes "s = 0 \<and> meta_precision m <s p \<longrightarrow>
           sint p + sint (max32 (meta_scale m) 0) < 2147483648"
  shows "meta_precision m \<le>s meta_precision (snd (Update m p s)) \<and>
         p \<le>s meta_precision (snd (Update m p s))"
proof (cases "s = 0 \<and> meta_precision m <s p")
  case True
  then have lt: "sint (meta_precision m) < sint p" by (simp add: word_sless_alt)
  have b: "sint p + sint (max32 (meta_scale m) 0) < 2147483648"
    using assms True by simp
  have nn: "0 \<le> sint (max32 (meta_scale m) 0)" by (simp add: sint_max32)
  have "sint (p + max32 (meta_scale m) 0) = sint p + sint (max32 (meta_scale m) 0)"
    using b nn sint32_range [of p] by (intro sint_add32) linarith+
  then have "sint (meta_precision m) \<le> sint (p + max32 (meta_scale m) 0) \<and>
             sint p \<le> sint (p + max32 (meta_scale m) 0)"
    using lt nn by linarith
  then show ?thesis
    using True by (simp add: Update_def Let_def word_sle_eq sint_max32) (simp add: max32_def)
next
  case False
  then show ?thesis
    by (auto simp add: Update_def Let_def word_sle_eq word_sless_alt sint_max32)
qed

text \<open>
  Claim C8 states that the stored precision and the stored scale never decrease in an
  \<open>Update\<close>. The value \<open>Decimal('1E-1073741824')\<close> has one digit and the exponent
  \<open>-1073741824\<close>, and \<open>Decimal('1E+1073741824')\<close> has one digit and the exponent
  \<open>1073741824\<close>. After the update with the pair of the first on a fresh object, the
  update with the pair of the second adds the stored scale to the precision
  \<open>1073741825\<close>; the sum leaves the range of \<open>int32_t\<close>, and the stored precision falls
  from \<open>1073741824\<close> to \<open>-2147483647\<close>.
\<close>

theorem Update_precision_wraps:
  "InferDecimalPrecisionAndScale_arith 1 (- 1073741824) = (1073741824, 1073741824) \<and>
   InferDecimalPrecisionAndScale_arith 1 1073741824 = (1073741825, 0) \<and>
   Updates DecimalMetadata_default [(1073741824, 1073741824)] =
     \<lparr>meta_precision = 1073741824, meta_scale = 1073741824\<rparr> \<and>
   snd (Update \<lparr>meta_precision = 1073741824, meta_scale = 1073741824\<rparr> 1073741825 0) =
     \<lparr>meta_precision = - 2147483647, meta_scale = 1073741824\<rparr> \<and>
   \<not> meta_precision \<lparr>meta_precision = 1073741824, meta_scale = 1073741824\<rparr> \<le>s
       meta_precision
         (snd (Update \<lparr>meta_precision = 1073741824, meta_scale = 1073741824\<rparr> 1073741825 0))"
  by code_simp

text \<open>
  Claim C8, amended: in every \<open>Update\<close>, from every state, the stored scale does not
  decrease; and the stored precision does not decrease provided that, when the
  suggested scale is zero and the suggested precision exceeds the stored one, the sum
  of the suggested precision and of the new scale is an \<open>int32_t\<close>.
\<close>

theorem Update_monotone:
  "meta_scale m \<le>s meta_scale (snd (Update m p s)) \<and>
   ((s = 0 \<and> meta_precision m <s p \<longrightarrow>
       sint p + sint (max32 (meta_scale m) 0) < 2147483648) \<longrightarrow>
    meta_precision m \<le>s meta_precision (snd (Update m p s)))"
  using Update_scale_le [of m p s] Update_precision_le [of s m p] by blast

theorem Update_monotone_witness:
  "sint (5::int32) + sint (max32 (meta_scale \<lparr>meta_precision = 3, meta_scale = 2\<rparr>) 0)
     < 2147483648 \<and>
   meta_scale \<lparr>meta_precision = 3, meta_scale = 2\<rparr> \<le>s
     meta_scale (snd (Update \<lparr>meta_precision = 3, meta_scale = 2\<rparr> 5 0)) \<and>
   meta_precision \<lparr>meta_precision = 3, meta_scale = 2\<rparr> \<le>s
     meta_precision (snd (Update \<lparr>meta_precision = 3, meta_scale = 2\<rparr> 5 0)) \<and>
   meta_scale \<lparr>meta_precision = 1073741824, meta_scale = 1073741824\<rparr> \<le>s
     meta_scale (snd (Update \<lparr>meta_precision = 1073741824, meta_scale = 1073741824\<rparr>
       1073741825 0))"
proof -
  have h: "sint (5::int32) + sint (max32 (meta_scale \<lparr>meta_precision = 3, meta_scale = 2\<rparr>) 0)
             < 2147483648"
    by (simp add: sint_max32)
  show ?thesis
    using Update_monotone [of "\<lparr>meta_precision = 3, meta_scale = 2\<rparr>" 5 0]
      Update_monotone [of "\<lparr>meta_precision = 1073741824, meta_scale = 1073741824\<rparr>"
        1073741825 0] h
    by simp
qed




section \<open>The order of the updates\<close>

lemma Updates_scale:
  "meta_scale (Updates m xs) = fold (\<lambda>u a. max32 a (snd u)) xs (meta_scale m)"
  by (induction m xs rule: Updates.induct) (simp_all add: Update_def Let_def)

lemma Updates_precision_nonzero:
  "\<forall>u\<in>set xs. snd u \<noteq> 0 \<Longrightarrow>
   meta_precision (Updates m xs) = fold (\<lambda>u a. max32 a (fst u)) xs (meta_precision m)"
  by (induction m xs rule: Updates.induct) (simp_all add: Update_def Let_def)

lemma Updates_precision_nonpos:
  "\<forall>u\<in>set xs. snd u \<le>s 0 \<Longrightarrow> meta_scale m \<le>s 0 \<Longrightarrow>
   meta_precision (Updates m xs) = fold (\<lambda>u a. max32 a (fst u)) xs (meta_precision m)"
proof (induction m xs rule: Updates.induct)
  case (1 this)
  then show ?case by simp
next
  case (2 this p s rest)
  have s: "s \<le>s 0" using 2(2) by simp
  have sc: "meta_scale (snd (Update this p s)) \<le>s 0"
    using s 2(3) by (simp add: Update_def Let_def max32_def)
  have pr: "meta_precision (snd (Update this p s)) = max32 (meta_precision this) p"
    using 2(3) by (auto simp add: Update_def Let_def max32_def)
  show ?case
    using 2(1) [OF _ sc] 2(2) pr by simp
qed

text \<open>
  Claim C4 states that the final pair does not depend on the order of the updates
  folded into a fresh object. The updates (5, 0) and (3, 2) give precision 5 in this
  order and precision 7 in the other: the integer that comes second exceeds the stored
  precision 3, and the stored scale 2 is added to it.
\<close>

theorem Updates_order_matters:
  "mset [(5, 0), (3, 2)] = mset [(3, 2), (5, 0) :: int32 \<times> int32] \<and>
   Updates DecimalMetadata_default [(5, 0), (3, 2)] =
     \<lparr>meta_precision = 5, meta_scale = 2\<rparr> \<and>
   Updates DecimalMetadata_default [(3, 2), (5, 0)] =
     \<lparr>meta_precision = 7, meta_scale = 2\<rparr> \<and>
   Updates DecimalMetadata_default [(5, 0), (3, 2)] \<noteq>
     Updates DecimalMetadata_default [(3, 2), (5, 0)]"
  by code_simp

text \<open>
  Claim C4, amended: for two lists of updates with the same elements, folded into a
  fresh object, the final scale is the same, and the final precision is the same when
  no suggested scale is zero or when no suggested scale is positive.
\<close>

theorem Updates_order:
  assumes "mset xs = mset ys"
  shows "meta_scale (Updates DecimalMetadata_default xs) =
           meta_scale (Updates DecimalMetadata_default ys) \<and>
         ((\<forall>u\<in>set xs. snd u \<noteq> 0) \<or> (\<forall>u\<in>set xs. snd u \<le>s 0) \<longrightarrow>
          meta_precision (Updates DecimalMetadata_default xs) =
            meta_precision (Updates DecimalMetadata_default ys))"
proof -
  have set: "set xs = set ys" using assms by (rule mset_eq_setD)
  have d: "meta_scale DecimalMetadata_default \<le>s 0"
    by (simp add: DecimalMetadata_default_def int32_min_def word_sle_eq)
  have sc: "meta_scale (Updates DecimalMetadata_default xs) =
      meta_scale (Updates DecimalMetadata_default ys)"
    by (simp add: Updates_scale fold_max32_mset [OF assms])
  have pr: "meta_precision (Updates DecimalMetadata_default xs) =
      meta_precision (Updates DecimalMetadata_default ys)"
    if "(\<forall>u\<in>set xs. snd u \<noteq> 0) \<or> (\<forall>u\<in>set xs. snd u \<le>s 0)"
    using that
  proof
    assume a: "\<forall>u\<in>set xs. snd u \<noteq> 0"
    then have "\<forall>u\<in>set ys. snd u \<noteq> 0" using set by simp
    with a show ?thesis
      by (simp add: Updates_precision_nonzero fold_max32_mset [OF assms])
  next
    assume a: "\<forall>u\<in>set xs. snd u \<le>s 0"
    then have "\<forall>u\<in>set ys. snd u \<le>s 0" using set by simp
    with a d show ?thesis
      by (simp add: Updates_precision_nonpos fold_max32_mset [OF assms])
  qed
  from sc pr show ?thesis by blast
qed

theorem Updates_order_witness:
  "mset [(5, 1), (3, 2)] = mset [(3, 2), (5, 1) :: int32 \<times> int32] \<and>
   snd (5, 1 :: int32) \<noteq> 0 \<and> snd (3, 2 :: int32) \<noteq> 0 \<and>
   meta_scale (Updates DecimalMetadata_default [(5, 1), (3, 2)]) =
     meta_scale (Updates DecimalMetadata_default [(3, 2), (5, 1)]) \<and>
   meta_precision (Updates DecimalMetadata_default [(5, 1), (3, 2)]) =
     meta_precision (Updates DecimalMetadata_default [(3, 2), (5, 1)])"
proof -
  have h1: "mset [(5, 1), (3, 2)] = mset [(3, 2), (5, 1) :: int32 \<times> int32]"
    by simp
  have h2: "\<forall>u\<in>set [(5, 1), (3, 2) :: int32 \<times> int32]. snd u \<noteq> 0"
    by simp
  show ?thesis
    using Updates_order [OF h1] h1 h2 by simp
qed

section \<open>Claims on the update from an object\<close>

text \<open>
  Claim C7: for every state and every object that is a NaN, the update from the
  object returns OK and the state it was given, both fields unchanged.
\<close>

theorem Update_object_nan: "py_is_nan v \<Longrightarrow> Update_object m v = (Status_OK, m)"
  by (simp add: Update_object_def PyDecimal_ISNAN_def)

theorem Update_object_nan_witness:
  "py_is_nan Decimal_NaN \<and>
   Update_object DecimalMetadata_default Decimal_NaN = (Status_OK, DecimalMetadata_default)"
proof -
  have h: "py_is_nan Decimal_NaN" by (simp add: Decimal_NaN_def)
  show ?thesis using Update_object_nan [OF h, of DecimalMetadata_default] h by simp
qed

section \<open>Claims on the conversion\<close>

text \<open>
  \<open>Convert(text, target)\<close> of the specification is \<open>DecimalFromPythonDecimal\<close> on an
  object whose \<open>str\<close> is the text.
\<close>

lemma precision_message_5_4:
  "precision_message 5 4 =
   ''Decimal type with precision 5 does not fit into precision inferred from first array element: 4''"
  by code_simp

text \<open>
  Claim C5 states that the conversion fails with an \<open>OutOfRange\<close> error exactly when
  the inferred precision exceeds the precision of the target. For the text \<open>12345\<close>
  and a target of precision 4 the inferred precision 5 exceeds the target's, and the
  source returns \<open>Status::Invalid\<close>.
\<close>

theorem Convert_overflow_is_Invalid:
  "(4::int32) <s 5 \<and>
   DecimalFromPythonDecimal FromString_vectors (Rescale_spec truncating_divide) Decimal_12345
     \<lparr>type_precision = 4, type_scale = 0\<rparr> =
   Inl (Status Invalid
     ''Decimal type with precision 5 does not fit into precision inferred from first array element: 4'') \<and>
   status_code (DecimalFromPythonDecimal FromString_vectors (Rescale_spec truncating_divide)
     Decimal_12345 \<lparr>type_precision = 4, type_scale = 0\<rparr>) \<noteq> OutOfRange"
  by code_simp

text \<open>
  Claim C5, amended: when the text of the object parses, the conversion fails with the
  status \<open>Invalid\<close> whose message holds the inferred precision and the precision of the
  target exactly when the inferred precision is greater than the precision of the
  target (a failure of the rescale being another status).
\<close>

theorem Convert_precision_check:
  assumes "PythonDecimalToString d = Inr text"
    and "FromString text = Inr (v, ip, isc)"
    and "Rescale v isc (type_scale t) \<noteq>
         Inl (Status Invalid (precision_message ip (type_precision t)))"
  shows "DecimalFromPythonDecimal FromString Rescale d t =
           Inl (Status Invalid (precision_message ip (type_precision t)))
         \<longleftrightarrow> type_precision t <s ip"
  using assms by (simp add: DecimalFromPythonDecimal_def Let_def Status_Invalid_def)

theorem Convert_precision_check_witness:
  "PythonDecimalToString Decimal_12345 = Inr ''12345'' \<and>
   FromString_vectors ''12345'' = Inr (12345, 5, 0) \<and>
   Rescale_spec truncating_divide 12345 0 0 \<noteq> Inl (Status Invalid (precision_message 5 4)) \<and>
   (4::int32) <s 5 \<and>
   DecimalFromPythonDecimal FromString_vectors (Rescale_spec truncating_divide) Decimal_12345
     \<lparr>type_precision = 4, type_scale = 0\<rparr> =
   Inl (Status Invalid
     ''Decimal type with precision 5 does not fit into precision inferred from first array element: 4'')"
proof -
  have h1: "PythonDecimalToString Decimal_12345 = Inr ''12345''"
    by (simp add: PythonDecimalToString_def Decimal_12345_def)
  have h2: "FromString_vectors ''12345'' = Inr (12345, 5, 0)"
    by (simp add: FromString_vectors_def)
  have h3: "Rescale_spec truncating_divide 12345 0
              (type_scale \<lparr>type_precision = 4, type_scale = 0\<rparr>) \<noteq>
            Inl (Status Invalid (precision_message 5
              (type_precision \<lparr>type_precision = 4, type_scale = 0\<rparr>)))"
    by (simp add: Rescale_spec_def Let_def)
  have h4: "(4::int32) <s 5" by (simp add: word_sless_alt)
  show ?thesis
    using Convert_precision_check [of Decimal_12345 "''12345''" FromString_vectors
        12345 5 0 "Rescale_spec truncating_divide" "\<lparr>type_precision = 4, type_scale = 0\<rparr>",
        OF h1 h2 h3] h1 h2 h3 h4
    by (simp add: precision_message_5_4)
qed

text \<open>
  Claim C6: when the text parses and the inferred precision fits the target, the
  result of the conversion is the result of \<open>Rescale\<close>, from the inferred scale to the
  scale of the target, when the two scales differ (its value, or its failing status),
  and the parsed value unchanged when they are equal. With the rescale of the
  specification, the text \<open>1.5\<close> and a target of precision 5 and scale 3 give the
  unscaled value 1500.
\<close>

theorem Convert_rescale:
  assumes "PythonDecimalToString d = Inr text"
    and "FromString text = Inr (v, ip, isc)"
    and "\<not> type_precision t <s ip"
  shows "DecimalFromPythonDecimal FromString Rescale d t =
           (if type_scale t \<noteq> isc then Rescale v isc (type_scale t) else Inr v)"
  using assms by (simp add: DecimalFromPythonDecimal_def Let_def)

theorem Convert_rescale_witness:
  "PythonDecimalToString Decimal_1_5 = Inr ''1.5'' \<and>
   FromString_vectors ''1.5'' = Inr (15, 2, 1) \<and>
   \<not> (5::int32) <s 2 \<and>
   DecimalFromPythonDecimal FromString_vectors (Rescale_spec truncating_divide) Decimal_1_5
     \<lparr>type_precision = 5, type_scale = 3\<rparr> = Inr 1500 \<and>
   DecimalFromPythonDecimal FromString_vectors (Rescale_spec truncating_divide) Decimal_1_5
     \<lparr>type_precision = 5, type_scale = 40\<rparr> = Inl (Status OutOfRange []) \<and>
   DecimalFromPythonDecimal FromString_vectors (Rescale_spec truncating_divide) Decimal_1_5
     \<lparr>type_precision = 5, type_scale = 1\<rparr> = Inr 15"
proof -
  have h1: "PythonDecimalToString Decimal_1_5 = Inr ''1.5''"
    by (simp add: PythonDecimalToString_def Decimal_1_5_def)
  have h2: "FromString_vectors ''1.5'' = Inr (15, 2, 1)"
    by (simp add: FromString_vectors_def)
  have h3: "\<not> type_precision \<lparr>type_precision = 5, type_scale = s\<rparr> <s 2" for s
    by (simp add: word_sless_alt)
  have r3: "Rescale_spec truncating_divide 15 1 3 = Inr 1500"
    by (simp add: Rescale_spec_def Let_def)
  have r40: "Rescale_spec truncating_divide 15 1 40 = Inl (Status OutOfRange [])"
    by (simp add: Rescale_spec_def Let_def)
  show ?thesis
    using Convert_rescale [of Decimal_1_5 "''1.5''" FromString_vectors 15 2 1
        "\<lparr>type_precision = 5, type_scale = 3\<rparr>" "Rescale_spec truncating_divide", OF h1 h2 h3]
      Convert_rescale [of Decimal_1_5 "''1.5''" FromString_vectors 15 2 1
        "\<lparr>type_precision = 5, type_scale = 40\<rparr>" "Rescale_spec truncating_divide", OF h1 h2 h3]
      Convert_rescale [of Decimal_1_5 "''1.5''" FromString_vectors 15 2 1
        "\<lparr>type_precision = 5, type_scale = 1\<rparr>" "Rescale_spec truncating_divide", OF h1 h2 h3]
      h1 h2 h3 [of 3] r3 r40
    by simp
qed

end
